theory Spec2Isabelle
  imports Main "HOL-Library.Word"
begin

section \<open>The keychain query and export engine of codesigndoc (package osxkeychain)\<close>

text \<open>
  The Go package talks to CoreFoundation and Security through cgo. The platform calls are
  not code of the package: they are taken here as the fields of a record \<open>keychain\<close>, one
  field per primitive, and every call that acquires, releases or writes something is
  appended to a trace of events. The Go functions themselves are translated statement by
  statement over that record.
\<close>

subsection \<open>Data\<close>

text \<open>A \<open>CFTypeRef\<close> is a pointer; the null pointer (Go's \<open>nil\<close>) is 0.\<close>

type_synonym cfref = nat

abbreviation (input) NULL :: cfref where
  "NULL \<equiv> 0"

text \<open>\<open>OSStatus\<close> is a signed 32-bit integer, \<open>CFIndex\<close> a signed 64-bit one (darwin/amd64);
  \<open>sint\<close> reads them. \<open>errSecSuccess\<close> is 0.\<close>

type_synonym OSStatus = "32 word"
type_synonym CFIndex = "64 word"
type_synonym C_int = "32 word"
type_synonym byte = "8 word"

definition errSecSuccess :: OSStatus where
  "errSecSuccess = 0"

text \<open>A dictionary of attributes: keys are compared as text (the keys the package looks up
  are freshly built CFStrings), values are pointers, possibly null.\<close>

type_synonym cfdict = "string \<rightharpoonup> cfref"

text \<open>The data buffer handed back by \<open>SecItemExport\<close>: its handle and its bytes.\<close>

record cfdata =
  data_ref :: cfref
  data_bytes :: "byte list"

record keychain =
  query_dict_ref :: cfref                       \<comment> \<open>what \<open>CFDictionaryCreateMutable\<close> returns\<close>
  SecItemCopyMatching_status :: OSStatus
  SecItemCopyMatching_result :: cfref           \<comment> \<open>\<open>resultRefs\<close>, the array's own handle\<close>
  SecItemCopyMatching_records :: "cfdict list"  \<comment> \<open>the elements of that array\<close>
  CFGetTypeID :: "cfref \<Rightarrow> nat"
  CFStringGetTypeID :: nat
  CFStringGetCStringPtr :: "cfref \<Rightarrow> string option"  \<comment> \<open>\<open>None\<close> is the null pointer\<close>
  SecItemExport_status :: "cfref list \<Rightarrow> OSStatus"
  SecItemExport_data :: "cfref list \<Rightarrow> cfdata"
  WriteBytesToFile :: "string \<Rightarrow> byte list \<Rightarrow> string option"  \<comment> \<open>\<open>None\<close>: no error\<close>

datatype event =
    EvCFRetain cfref
  | EvCFRelease cfref
  | EvSecItemCopyMatching
  | EvCFArrayCreate "cfref list"
  | EvSecItemExport "cfref list"
  | EvGoBytes cfref nat
  | EvWriteBytesToFile string "byte list"

text \<open>The errors of the typed attribute readers, one per \<open>errors.New\<close> of the source.\<close>

datatype attr_error =
    KeyDoesntExist          \<comment> \<open>getCFDictValueRef: Key doesn't exist\<close>
  | NilValueReturned        \<comment> \<open>getCFDictValueCFStringRef: Nil value returned\<close>
  | ValueIsNotAString       \<comment> \<open>getCFDictValueCFStringRef: value is not a string\<close>
  | NilValue                \<comment> \<open>getCFDictValueUTF8String: Nil value\<close>
  | FailedToConvert         \<comment> \<open>getCFDictValueUTF8String: failed to convert value to string\<close>

text \<open>The errors of the two public functions, one per \<open>fmt.Errorf\<close> of the source, with
  the arguments that are formatted into the message.\<close>

datatype error =
    CopyMatchFailed OSStatus       \<comment> \<open>Failed to call SecItemCopyMatch - OSStatus: %d\<close>
  | NoIdentityFound                \<comment> \<open>No Identity found in your Keychain with the specified Label!\<close>
  | LablPropertyFailed attr_error  \<comment> \<open>FindIdentity: failed to get 'labl' property: %s\<close>
  | VRefPropertyFailed attr_error  \<comment> \<open>FindIdentity: failed to get 'v_Ref' property: %s\<close>
  | SecItemExportFailed OSStatus   \<comment> \<open>SecItemExport: error (OSStatus): %d\<close>
  | WriteIntoFileFailed string     \<comment> \<open>ExportFromKeychain: failed to write into file: %s\<close>

text \<open>A call either returns its Go result or does not return: a Go run-time panic, or a
  crash inside CoreFoundation on a null pointer.\<close>

datatype panic =
    IndexOutOfRange          \<comment> \<open>\<open>itemRefsToExport[0]\<close> on an empty slice\<close>
  | GoBytesLengthOutOfRange  \<comment> \<open>\<open>C.GoBytes\<close> with a negative length\<close>
  | NullPointerCrash         \<comment> \<open>\<open>CFRetain(NULL)\<close>\<close>

datatype 'a outcome = Returns 'a | Panics panic

subsection \<open>Formatting of status codes\<close>

text \<open>\<open>%d\<close> of an \<open>OSStatus\<close>: the decimal digits of the signed value.\<close>

fun digits :: "nat \<Rightarrow> string" where
  "digits n = (if n < 10 then [''0123456789'' ! n]
               else digits (n div 10) @ [''0123456789'' ! (n mod 10)])"

definition fmt_d :: "int \<Rightarrow> string" where
  "fmt_d i = (if i < 0 then CHR ''-'' # digits (nat (- i)) else digits (nat i))"

text \<open>Reading a decimal text back: the value of the digits, with a leading minus sign. It
  is used to state that the status can be recovered from the text of an error.\<close>

definition digit_value :: "char \<Rightarrow> nat" where
  "digit_value c = of_char c - 48"

definition read_digits :: "string \<Rightarrow> nat" where
  "read_digits s = foldl (\<lambda>acc c. 10 * acc + digit_value c) 0 s"

definition read_d :: "string \<Rightarrow> int" where
  "read_d s = (case s of
                 [] \<Rightarrow> 0
               | c # cs \<Rightarrow> if c = CHR ''-'' then - int (read_digits cs) else int (read_digits s))"

fun attr_error_string :: "attr_error \<Rightarrow> string" where
  "attr_error_string KeyDoesntExist = ''getCFDictValueRef: Key doesn't exist''"
| "attr_error_string NilValueReturned = ''getCFDictValueCFStringRef: Nil value returned''"
| "attr_error_string ValueIsNotAString = ''getCFDictValueCFStringRef: value is not a string''"
| "attr_error_string NilValue = ''getCFDictValueUTF8String: Nil value''"
| "attr_error_string FailedToConvert = ''getCFDictValueUTF8String: failed to convert value to string''"

fun error_string :: "error \<Rightarrow> string" where
  "error_string (CopyMatchFailed st) = ''Failed to call SecItemCopyMatch - OSStatus: '' @ fmt_d (sint st)"
| "error_string NoIdentityFound = ''No Identity found in your Keychain with the specified Label!''"
| "error_string (LablPropertyFailed e) = ''FindIdentity: failed to get 'labl' property: '' @ attr_error_string e"
| "error_string (VRefPropertyFailed e) = ''FindIdentity: failed to get 'v_Ref' property: '' @ attr_error_string e"
| "error_string (SecItemExportFailed st) = ''SecItemExport: error (OSStatus): '' @ fmt_d (sint st)"
| "error_string (WriteIntoFileFailed s) = ''ExportFromKeychain: failed to write into file: '' @ s"

subsection \<open>The typed attribute readers\<close>

text \<open>Each reader returns Go's pair: the value and the error, \<open>None\<close> for a nil error.
  \<open>CFDictionaryGetValueIfPresent\<close> tells whether the key is present;
  \<open>CFDictionaryGetValue\<close> then fetches the value stored under it.\<close>

definition getCFDictValueRef :: "cfdict \<Rightarrow> string \<Rightarrow> cfref \<times> attr_error option" where
  "getCFDictValueRef dict key =
     (case dict key of
        None \<Rightarrow> (NULL, Some KeyDoesntExist)
      | Some v \<Rightarrow> (v, None))"

definition getCFDictValueCFStringRef ::
  "keychain \<Rightarrow> cfdict \<Rightarrow> string \<Rightarrow> cfref \<times> attr_error option" where
  "getCFDictValueCFStringRef kc dict key =
     (case getCFDictValueRef dict key of
        (val, Some err) \<Rightarrow> (NULL, Some err)
      | (val, None) \<Rightarrow>
          if val = NULL then (NULL, Some NilValueReturned)
          else if CFGetTypeID kc val \<noteq> CFStringGetTypeID kc then (NULL, Some ValueIsNotAString)
          else (val, None))"

definition getCFDictValueUTF8String ::
  "keychain \<Rightarrow> cfdict \<Rightarrow> string \<Rightarrow> string \<times> attr_error option" where
  "getCFDictValueUTF8String kc dict key =
     (case getCFDictValueCFStringRef kc dict key of
        (valCFStringRef, Some err) \<Rightarrow> ('''', Some err)
      | (valCFStringRef, None) \<Rightarrow>
          if valCFStringRef = NULL then ('''', Some NilValue)
          else (case CFStringGetCStringPtr kc valCFStringRef of
                  None \<Rightarrow> ('''', Some FailedToConvert)
                | Some cstr \<Rightarrow> (cstr, None)))"

subsection \<open>FindIdentity\<close>

text \<open>
  The filtering loop \<open>for i := identitiesCount - 1; i > 0; i--\<close>, by recursion on \<open>i\<close>:
  at 0 the condition \<open>i > 0\<close> fails and the function goes on to its final return; at
  \<open>Suc n\<close> the body runs on the record at index \<open>Suc n\<close> and the loop continues with \<open>n\<close>.
  The loop carries the slice \<open>retIdentityRefs\<close> and the trace. A \<open>return\<close> inside the body
  leaves the function with that result.
\<close>

type_synonym find_result = "(cfref list option \<times> error option) outcome"

fun filter_loop ::
  "keychain \<Rightarrow> string \<Rightarrow> nat \<Rightarrow> cfref list \<Rightarrow> event list \<Rightarrow> find_result \<times> event list" where
  "filter_loop kc identityLabel 0 retIdentityRefs tr =
     (Returns (Some retIdentityRefs, None), tr)"
| "filter_loop kc identityLabel (Suc n) retIdentityRefs tr =
     (let aIdentityDictRef = SecItemCopyMatching_records kc ! Suc n in
      case getCFDictValueUTF8String kc aIdentityDictRef ''labl'' of
        (labl, Some err) \<Rightarrow> (Returns (None, Some (LablPropertyFailed err)), tr)
      | (labl, None) \<Rightarrow>
          if labl \<noteq> identityLabel then filter_loop kc identityLabel n retIdentityRefs tr
          else (case getCFDictValueRef aIdentityDictRef ''v_Ref'' of
                  (vrefRef, Some err) \<Rightarrow> (Returns (None, Some (VRefPropertyFailed err)), tr)
                | (vrefRef, None) \<Rightarrow>
                    if vrefRef = NULL then (Panics NullPointerCrash, tr)
                    else filter_loop kc identityLabel n
                           (retIdentityRefs @ [vrefRef]) (tr @ [EvCFRetain vrefRef])))"

text \<open>The deferred releases run when the function returns, last deferred first; a crash
  inside CoreFoundation ends the process and runs none.\<close>

fun run_deferred :: "cfref list \<Rightarrow> 'a outcome \<times> event list \<Rightarrow> 'a outcome \<times> event list" where
  "run_deferred refs (Panics NullPointerCrash, tr) = (Panics NullPointerCrash, tr)"
| "run_deferred refs (res, tr) = (res, tr @ map EvCFRelease refs)"

definition FindIdentity :: "keychain \<Rightarrow> string \<Rightarrow> find_result \<times> event list" where
  "FindIdentity kc identityLabel =
     (let tr = [EvSecItemCopyMatching] in
      if SecItemCopyMatching_status kc \<noteq> errSecSuccess
      then run_deferred [query_dict_ref kc]
             (Returns (None, Some (CopyMatchFailed (SecItemCopyMatching_status kc))), tr)
      else
        let identitiesCount = length (SecItemCopyMatching_records kc) in
        if identitiesCount < 1
        then run_deferred [SecItemCopyMatching_result kc, query_dict_ref kc]
               (Returns (None, Some NoIdentityFound), tr)
        else run_deferred [SecItemCopyMatching_result kc, query_dict_ref kc]
               (filter_loop kc identityLabel (identitiesCount - 1) [] tr))"

subsection \<open>ExportFromKeychain\<close>

text \<open>\<open>CFDataGetLength\<close> reports the number of bytes of the buffer as a \<open>CFIndex\<close>.\<close>

definition CFDataGetLength :: "cfdata \<Rightarrow> CFIndex" where
  "CFDataGetLength d = word_of_nat (length (data_bytes d))"

text \<open>\<open>C.GoBytes(p, n)\<close> copies \<open>n\<close> bytes starting at \<open>p\<close> into a new Go slice; the Go
  run time panics when \<open>n\<close> is negative.\<close>

definition GoBytes :: "byte list \<Rightarrow> C_int \<Rightarrow> byte list outcome" where
  "GoBytes mem n = (if sint n < 0 then Panics GoBytesLengthOutOfRange
                    else Returns (take (nat (sint n)) mem))"

text \<open>
  The export parameters are constants of the call and are not modelled. \<open>itemRefsToExport[0]\<close>
  is evaluated before anything is handed to the store. The conversion \<open>(C.int)(...)\<close> of the
  buffer's length keeps the low 32 bits. \<open>defer C.CFRelease(exportedData)\<close> is registered
  only after the status check and runs on every later exit, also when \<open>C.GoBytes\<close> panics.
\<close>

definition ExportFromKeychain ::
  "keychain \<Rightarrow> cfref list \<Rightarrow> string \<Rightarrow> error option outcome \<times> event list" where
  "ExportFromKeychain kc itemRefsToExport outputFilePath =
     (if itemRefsToExport = [] then (Panics IndexOutOfRange, [])
      else
        let tr = [EvCFArrayCreate itemRefsToExport, EvSecItemExport itemRefsToExport];
            status = SecItemExport_status kc itemRefsToExport in
        if status \<noteq> errSecSuccess then (Returns (Some (SecItemExportFailed status)), tr)
        else
          let exportedData = SecItemExport_data kc itemRefsToExport in
          run_deferred [data_ref exportedData]
            (case GoBytes (data_bytes exportedData) (ucast (CFDataGetLength exportedData)) of
               Panics p \<Rightarrow> (Panics p, tr)
             | Returns dataBytes \<Rightarrow>
                 let tr = tr @ [EvGoBytes (data_ref exportedData) (length dataBytes),
                                EvWriteBytesToFile outputFilePath dataBytes] in
                 (case WriteBytesToFile kc outputFilePath dataBytes of
                    Some err \<Rightarrow> (Returns (Some (WriteIntoFileFailed err)), tr)
                  | None \<Rightarrow> (Returns None, tr))))"

subsection \<open>The caller: the export loop of scan\<close>

text \<open>\<open>log.Fatalf\<close> ends the process; the three fatal exits of the loop over the required
  identities, and the one after \<open>ExportFromKeychain\<close>.\<close>

datatype fatal =
    FailedToExportIdentity error      \<comment> \<open>Failed to Export Identity: %s\<close>
  | NoIdentityFoundInKeychain         \<comment> \<open>No Identity found in Keychain!\<close>
  | MultipleMatchingIdentitiesFound   \<comment> \<open>Multiple matching Identities found in Keychain! ...\<close>
  | FailedToExportFromKeychain error  \<comment> \<open>Failed to export from Keychain: %s\<close>

text \<open>\<open>len\<close> and \<open>append(..., s...)\<close> treat a nil slice as the empty one.\<close>

fun slice_elems :: "'a list option \<Rightarrow> 'a list" where
  "slice_elems None = []"
| "slice_elems (Some xs) = xs"

fun scan_identities ::
  "keychain \<Rightarrow> string list \<Rightarrow> cfref list \<Rightarrow> event list \<Rightarrow>
   (fatal + cfref list) outcome \<times> event list" where
  "scan_identities kc [] identityExportRefs tr = (Returns (Inr identityExportRefs), tr)"
| "scan_identities kc (title # titles) identityExportRefs tr =
     (case FindIdentity kc title of
        (Panics p, tr') \<Rightarrow> (Panics p, tr @ tr')
      | (Returns (identityRefs, Some err), tr') \<Rightarrow>
          (Returns (Inl (FailedToExportIdentity err)), tr @ tr')
      | (Returns (identityRefs, None), tr') \<Rightarrow>
          if length (slice_elems identityRefs) < 1
          then (Returns (Inl NoIdentityFoundInKeychain), tr @ tr')
          else if length (slice_elems identityRefs) > 1
          then (Returns (Inl MultipleMatchingIdentitiesFound), tr @ tr')
          else scan_identities kc titles
                 (identityExportRefs @ slice_elems identityRefs) (tr @ tr'))"

subsection \<open>Reading a trace\<close>

text \<open>The handles retained and the handles released in a trace, in order, and the net
  count of acquisitions of one handle.\<close>

fun retained :: "event list \<Rightarrow> cfref list" where
  "retained [] = []"
| "retained (EvCFRetain h # es) = h # retained es"
| "retained (e # es) = retained es"

fun released :: "event list \<Rightarrow> cfref list" where
  "released [] = []"
| "released (EvCFRelease h # es) = h # released es"
| "released (e # es) = released es"

definition outstanding :: "event list \<Rightarrow> cfref \<Rightarrow> int" where
  "outstanding tr h = int (count_list (retained tr) h) - int (count_list (released tr) h)"

text \<open>What the loop meets in one record: the label it reads, and whether the record
  matches the requested label.\<close>

definition matches :: "keychain \<Rightarrow> string \<Rightarrow> cfdict \<Rightarrow> bool" where
  "matches kc identityLabel d = (getCFDictValueUTF8String kc d ''labl'' = (identityLabel, None))"

definition readable :: "keychain \<Rightarrow> cfdict \<Rightarrow> bool" where
  "readable kc d = (snd (getCFDictValueUTF8String kc d ''labl'') = None)"

definition vref_of :: "cfdict \<Rightarrow> cfref" where
  "vref_of d = fst (getCFDictValueRef d ''v_Ref'')"

definition vref_ok :: "cfdict \<Rightarrow> bool" where
  "vref_ok d = (snd (getCFDictValueRef d ''v_Ref'') = None \<and> vref_of d \<noteq> NULL)"

text \<open>The records the loop visits when it starts at index \<open>n\<close>, in the order of the visit:
  indices \<open>n\<close> down to 1.\<close>

definition scanned :: "keychain \<Rightarrow> nat \<Rightarrow> cfdict list" where
  "scanned kc n = rev (take n (tl (SecItemCopyMatching_records kc)))"

text \<open>The references of the records that carry the requested label, last record first.\<close>

definition matching_refs :: "keychain \<Rightarrow> string \<Rightarrow> cfref list" where
  "matching_refs kc identityLabel =
     map vref_of (filter (matches kc identityLabel) (rev (SecItemCopyMatching_records kc)))"

subsection \<open>A small keychain for concrete runs\<close>

text \<open>
  Handles 10 and 11 are the strings \<open>Test Cert\<close> and \<open>Other Cert\<close>; 12 is a string for which
  \<open>CFStringGetCStringPtr\<close> gives the null pointer; every other handle is not a string. The
  query dictionary is handle 1, the result array handle 2, the exported buffer handle 30.
\<close>

definition demo_keychain :: "cfdict list \<Rightarrow> keychain" where
  "demo_keychain recs =
     \<lparr> query_dict_ref = 1,
       SecItemCopyMatching_status = 0,
       SecItemCopyMatching_result = 2,
       SecItemCopyMatching_records = recs,
       CFGetTypeID = (\<lambda>r. if r = 10 \<or> r = 11 \<or> r = 12 then 7 else 1),
       CFStringGetTypeID = 7,
       CFStringGetCStringPtr =
         (\<lambda>r. if r = 10 then Some ''Test Cert'' else if r = 11 then Some ''Other Cert'' else None),
       SecItemExport_status = (\<lambda>refs. 0),
       SecItemExport_data = (\<lambda>refs. \<lparr>data_ref = 30, data_bytes = [1, 2, 3]\<rparr>),
       WriteBytesToFile = (\<lambda>path bytes. None) \<rparr>"

definition rec_test :: "cfref \<Rightarrow> cfdict" where
  "rec_test h = [''labl'' \<mapsto> 10, ''v_Ref'' \<mapsto> h]"

definition rec_other :: "cfref \<Rightarrow> cfdict" where
  "rec_other h = [''labl'' \<mapsto> 11, ''v_Ref'' \<mapsto> h]"

definition rec_nolabel :: "cfref \<Rightarrow> cfdict" where
  "rec_nolabel h = [''v_Ref'' \<mapsto> h]"

text \<open>The same keychain with both store primitives answering the status \<open>st\<close>.\<close>

definition failing_keychain :: "OSStatus \<Rightarrow> keychain" where
  "failing_keychain st =
     (demo_keychain [rec_test 20])
       \<lparr> SecItemCopyMatching_status := st, SecItemExport_status := (\<lambda>refs. st) \<rparr>"

text \<open>The same keychain with an exported buffer of \<open>n\<close> bytes.\<close>

definition big_keychain :: "nat \<Rightarrow> keychain" where
  "big_keychain n =
     (demo_keychain [rec_test 20])
       \<lparr> SecItemExport_data := (\<lambda>refs. \<lparr>data_ref = 30, data_bytes = replicate n 7\<rparr>) \<rparr>"

section \<open>Properties\<close>

subsection \<open>Auxiliary facts\<close>

declare digits.simps [simp del]

lemmas readers_defs =
  getCFDictValueUTF8String_def getCFDictValueCFStringRef_def getCFDictValueRef_def

lemmas demo_defs =
  demo_keychain_def rec_test_def rec_other_def rec_nolabel_def errSecSuccess_def

lemma fst_run_deferred: "fst (run_deferred refs p) = fst p"
  by (cases "(refs, p)" rule: run_deferred.cases) simp_all

lemma retained_append: "retained (xs @ ys) = retained xs @ retained ys"
  by (induction xs rule: retained.induct) simp_all

lemma released_append: "released (xs @ ys) = released xs @ released ys"
  by (induction xs rule: released.induct) simp_all

lemma retained_map_retain: "retained (map EvCFRetain hs) = hs"
  by (induction hs) simp_all

lemma released_map_retain: "released (map EvCFRetain hs) = []"
  by (induction hs) simp_all

lemma read_nonmatching:
  assumes "readable kc d" and "\<not> matches kc lbl d"
  shows "\<exists>s. getCFDictValueUTF8String kc d ''labl'' = (s, None) \<and> s \<noteq> lbl"
proof -
  obtain s e where se: "getCFDictValueUTF8String kc d ''labl'' = (s, e)"
    by (cases "getCFDictValueUTF8String kc d ''labl''")
  with assms(1) have "e = None" by (simp add: readable_def)
  with se assms(2) show ?thesis by (simp add: matches_def)
qed

lemma read_vref:
  assumes "vref_ok d"
  shows "getCFDictValueRef d ''v_Ref'' = (vref_of d, None) \<and> vref_of d \<noteq> NULL"
  using assms by (cases "getCFDictValueRef d ''v_Ref''") (simp add: vref_ok_def vref_of_def)

lemma scanned_Suc:
  assumes "Suc n < length (SecItemCopyMatching_records kc)"
  shows "scanned kc (Suc n) = (SecItemCopyMatching_records kc ! Suc n) # scanned kc n"
proof -
  let ?recs = "SecItemCopyMatching_records kc"
  from assms have "n < length (tl ?recs)" by simp
  then have "take (Suc n) (tl ?recs) = take n (tl ?recs) @ [tl ?recs ! n]"
    by (rule take_Suc_conv_app_nth)
  moreover from assms have "tl ?recs ! n = ?recs ! Suc n"
    by (simp add: nth_tl)
  ultimately show ?thesis by (simp add: scanned_def)
qed

text \<open>When every visited record has a readable label and every visited match a usable
  reference, the loop runs to its end: it appends the references of the matches in the
  order of the visit, and retains each of them.\<close>

lemma filter_loop_scan:
  assumes "n < length (SecItemCopyMatching_records kc)"
    and "\<forall>d \<in> set (scanned kc n). readable kc d \<and> (matches kc lbl d \<longrightarrow> vref_ok d)"
  shows "filter_loop kc lbl n ret tr =
           (Returns (Some (ret @ map vref_of (filter (matches kc lbl) (scanned kc n))), None),
            tr @ map EvCFRetain (map vref_of (filter (matches kc lbl) (scanned kc n))))"
  using assms
proof (induction n arbitrary: ret tr)
  case 0
  then show ?case by (simp add: scanned_def)
next
  case (Suc n)
  let ?d = "SecItemCopyMatching_records kc ! Suc n"
  from Suc.prems(1) have sc: "scanned kc (Suc n) = ?d # scanned kc n"
    by (rule scanned_Suc)
  from Suc.prems(1) have n: "n < length (SecItemCopyMatching_records kc)" by simp
  from Suc.prems(2) sc have rest:
    "\<forall>d \<in> set (scanned kc n). readable kc d \<and> (matches kc lbl d \<longrightarrow> vref_ok d)"
    and rd: "readable kc ?d" and ok: "matches kc lbl ?d \<longrightarrow> vref_ok ?d"
    by simp_all
  note IH = Suc.IH [OF n rest]
  show ?case
  proof (cases "matches kc lbl ?d")
    case True
    then have lab: "getCFDictValueUTF8String kc ?d ''labl'' = (lbl, None)"
      by (simp add: matches_def)
    from True ok have "vref_ok ?d" by simp
    then have vr: "getCFDictValueRef ?d ''v_Ref'' = (vref_of ?d, None)"
      and nn: "vref_of ?d \<noteq> NULL"
      using read_vref by simp_all
    show ?thesis
      by (simp add: Let_def lab vr nn IH sc True)
  next
    case False
    with rd obtain s where lab: "getCFDictValueUTF8String kc ?d ''labl'' = (s, None)"
      and ne: "s \<noteq> lbl"
      using read_nonmatching by blast
    show ?thesis
      by (simp add: Let_def lab ne IH sc False)
  qed
qed

lemma scanned_all:
  "scanned kc (length (SecItemCopyMatching_records kc) - 1) =
     rev (tl (SecItemCopyMatching_records kc))"
  by (simp add: scanned_def)

text \<open>Every exit of the loop that carries an error carries the nil slice.\<close>

lemma filter_loop_error_nil:
  "fst (filter_loop kc lbl n ret tr) = Returns (hs, Some e) \<Longrightarrow> hs = None"
proof (induction n arbitrary: ret tr)
  case 0
  then show ?case by simp
next
  case (Suc n)
  then show ?case
    by (auto simp: Let_def split: prod.splits option.splits if_splits)
qed

text \<open>The whole call on a non-empty result set whose records from index 1 on are readable.\<close>

lemma FindIdentity_scan:
  assumes st: "SecItemCopyMatching_status kc = errSecSuccess"
    and ne: "SecItemCopyMatching_records kc \<noteq> []"
    and ok: "\<forall>d \<in> set (tl (SecItemCopyMatching_records kc)).
               readable kc d \<and> (matches kc lbl d \<longrightarrow> vref_ok d)"
  shows "FindIdentity kc lbl =
           (Returns (Some (map vref_of (filter (matches kc lbl)
                                (rev (tl (SecItemCopyMatching_records kc))))), None),
            EvSecItemCopyMatching #
            map EvCFRetain (map vref_of (filter (matches kc lbl)
                                (rev (tl (SecItemCopyMatching_records kc))))) @
            [EvCFRelease (SecItemCopyMatching_result kc), EvCFRelease (query_dict_ref kc)])"
proof -
  let ?n = "length (SecItemCopyMatching_records kc) - 1"
  from ne have n: "?n < length (SecItemCopyMatching_records kc)" by simp
  from ok have ok': "\<forall>d \<in> set (scanned kc ?n). readable kc d \<and> (matches kc lbl d \<longrightarrow> vref_ok d)"
    by (simp add: scanned_def)
  have loop: "filter_loop kc lbl ?n [] [EvSecItemCopyMatching] =
      (Returns (Some ([] @ map vref_of (filter (matches kc lbl) (scanned kc ?n))), None),
       [EvSecItemCopyMatching] @
       map EvCFRetain (map vref_of (filter (matches kc lbl) (scanned kc ?n))))"
    using n ok' by (rule filter_loop_scan)
  from ne have len: "\<not> length (SecItemCopyMatching_records kc) < 1" by simp
  show ?thesis
    unfolding FindIdentity_def Let_def
    by (simp only: st len loop scanned_all if_False simp_thms run_deferred.simps
          append_Nil append_Cons list.map append_assoc)
qed

lemma filter_rev_tl:
  assumes "xs \<noteq> []" and "\<not> P (hd xs)"
  shows "filter P (rev (tl xs)) = filter P (rev xs)"
  using assms by (cases xs) simp_all

text \<open>The decimal text of a number reads back as that number, so \<open>fmt_d\<close> is injective.\<close>

lemma digit_char:
  assumes "d < 10"
  shows "digit_value (''0123456789'' ! d) = d \<and> ''0123456789'' ! d \<noteq> CHR ''-''"
proof -
  from assms have "d \<in> {0, 1, 2, 3, 4, 5, 6, 7, 8, 9}" by auto
  then show ?thesis
    by (auto simp: digit_value_def)
qed

lemma read_digits_snoc: "read_digits (s @ [c]) = 10 * read_digits s + digit_value c"
  by (simp add: read_digits_def)

lemma read_digits_digits: "read_digits (digits n) = n"
proof (induction n rule: digits.induct)
  case (1 n)
  show ?case
  proof (cases "n < 10")
    case True
    then have "digits n = [''0123456789'' ! n]"
      by (subst digits.simps) simp
    with True show ?thesis using digit_char [of n] by (simp add: read_digits_def)
  next
    case False
    have "n mod 10 < 10" by simp
    then have dv: "digit_value (''0123456789'' ! (n mod 10)) = n mod 10"
      using digit_char by blast
    from False have "digits n = digits (n div 10) @ [''0123456789'' ! (n mod 10)]"
      by (subst digits.simps) simp
    with "1.IH" False dv show ?thesis
      by (simp only: read_digits_snoc) simp
  qed
qed

lemma digits_hd: "\<exists>c cs. digits n = c # cs \<and> c \<noteq> CHR ''-''"
proof (induction n rule: digits.induct)
  case (1 n)
  show ?case
  proof (cases "n < 10")
    case True
    then show ?thesis using digit_char [of n] by (subst digits.simps) simp
  next
    case False
    then have d: "digits n = digits (n div 10) @ [''0123456789'' ! (n mod 10)]"
      by (subst digits.simps) simp
    from "1.IH" False obtain c cs where "digits (n div 10) = c # cs" and "c \<noteq> CHR ''-''"
      by blast
    with d show ?thesis by simp
  qed
qed

lemma read_d_fmt_d: "read_d (fmt_d i) = i"
proof (cases "i < 0")
  case True
  then show ?thesis by (simp add: read_d_def fmt_d_def read_digits_digits)
next
  case False
  obtain c cs where d: "digits (nat i) = c # cs" and c: "c \<noteq> CHR ''-''"
    using digits_hd by blast
  have "read_digits (c # cs) = nat i"
    using read_digits_digits [of "nat i"] by (simp add: d)
  with False c show ?thesis by (simp add: read_d_def fmt_d_def d)
qed

lemma fmt_d_inj: "fmt_d i = fmt_d j \<Longrightarrow> i = j"
  by (metis read_d_fmt_d)

subsection \<open>Claims\<close>

text \<open>
  C1. A result set with exactly one record carrying the requested label should give back
  exactly that record's reference, wherever the record sits in the array. The loop stops
  before index 0: the lone matching record of a one-element result set is never read, and
  the call returns an empty slice and no error, with nothing retained. The same record at
  index 1 is found and retained.
\<close>

theorem FindIdentity_misses_index_0:
  "matches (demo_keychain [rec_test 20]) ''Test Cert'' (rec_test 20) \<and>
   FindIdentity (demo_keychain [rec_test 20]) ''Test Cert'' =
     (Returns (Some [], None), [EvSecItemCopyMatching, EvCFRelease 2, EvCFRelease 1]) \<and>
   FindIdentity (demo_keychain [rec_other 21, rec_test 20]) ''Test Cert'' =
     (Returns (Some [20], None),
      [EvSecItemCopyMatching, EvCFRetain 20, EvCFRelease 2, EvCFRelease 1])"
  by (simp add: demo_defs FindIdentity_def readers_defs matches_def)

text \<open>
  C3. An error return should leave no retained handle behind. In the result set below the
  loop first retains the reference 20 of the matching record at index 2, then fails to
  read the label of the record at index 1 and returns the error: handle 20 has been
  retained once and is never released, and the caller receives the nil slice.
\<close>

theorem FindIdentity_error_leaks_retained:
  "FindIdentity (demo_keychain [rec_other 22, rec_nolabel 21, rec_test 20]) ''Test Cert'' =
     (Returns (None, Some (LablPropertyFailed KeyDoesntExist)),
      [EvSecItemCopyMatching, EvCFRetain 20, EvCFRelease 2, EvCFRelease 1]) \<and>
   outstanding
     (snd (FindIdentity (demo_keychain [rec_other 22, rec_nolabel 21, rec_test 20]) ''Test Cert''))
     20 = 1"
  by (simp add: demo_defs FindIdentity_def readers_defs numeral_2_eq_2 outstanding_def)

text \<open>
  C4. On the empty slice \<open>ExportFromKeychain\<close> should return an error without reaching the
  export primitive. It does not reach the primitive, but it does not return either: taking
  the address of element 0 panics.
\<close>

theorem ExportFromKeychain_empty_panics:
  "ExportFromKeychain kc [] outputFilePath = (Panics IndexOutOfRange, [])"
  by (simp add: ExportFromKeychain_def)

text \<open>
  C10. Whenever \<open>FindIdentity\<close> returns an error, the slice it returns with it is nil.
\<close>

theorem FindIdentity_error_nil_slice:
  "fst (FindIdentity kc identityLabel) = Returns (hs, Some e) \<Longrightarrow> hs = None"
  by (auto simp: FindIdentity_def Let_def fst_run_deferred
           split: if_splits dest: filter_loop_error_nil)

theorem FindIdentity_error_nil_slice_witness:
  "fst (FindIdentity (demo_keychain []) ''Test Cert'') = Returns (None, Some NoIdentityFound)"
proof -
  have "\<exists>hs. fst (FindIdentity (demo_keychain []) ''Test Cert'') = Returns (hs, Some NoIdentityFound)"
    by (simp add: demo_defs FindIdentity_def)
  then obtain hs where
    r: "fst (FindIdentity (demo_keychain []) ''Test Cert'') = Returns (hs, Some NoIdentityFound)" ..
  from FindIdentity_error_nil_slice [OF r] r show ?thesis by simp
qed

text \<open>
  C2. Two or more records with the requested label should make \<open>FindIdentity\<close> release what
  it retained and return an ambiguity error. On the result set below, whose records at
  indices 1 and 2 both carry the label, it returns both references with a nil error, each
  retained once and neither released.
\<close>

theorem FindIdentity_ambiguous_counterexample:
  "length (filter (matches (demo_keychain [rec_other 22, rec_test 20, rec_test 21]) ''Test Cert'')
             (SecItemCopyMatching_records (demo_keychain [rec_other 22, rec_test 20, rec_test 21])))
     = 2 \<and>
   FindIdentity (demo_keychain [rec_other 22, rec_test 20, rec_test 21]) ''Test Cert'' =
     (Returns (Some [21, 20], None),
      [EvSecItemCopyMatching, EvCFRetain 21, EvCFRetain 20, EvCFRelease 2, EvCFRelease 1]) \<and>
   outstanding
     (snd (FindIdentity (demo_keychain [rec_other 22, rec_test 20, rec_test 21]) ''Test Cert''))
     21 = 1"
  by (simp add: demo_defs FindIdentity_def readers_defs matches_def numeral_2_eq_2
        outstanding_def)

text \<open>
  C2, as the code has it. When the query succeeds, every record's label is readable, every
  record with the requested label has a non-null reference, and two or more records carry
  the label, none of them at index 0, then \<open>FindIdentity\<close> returns, with a nil error, the
  references of all those records (last record first), each retained once; the only
  handles it releases are the result array and the query dictionary. The ambiguity is
  rejected by the caller: the loop of \<open>scan\<close> stops with its fatal error for multiple
  matching identities.
\<close>

theorem FindIdentity_returns_all_matches:
  assumes st: "SecItemCopyMatching_status kc = errSecSuccess"
    and ne: "SecItemCopyMatching_records kc \<noteq> []"
    and h0: "\<not> matches kc lbl (hd (SecItemCopyMatching_records kc))"
    and ok: "\<forall>d \<in> set (SecItemCopyMatching_records kc).
               readable kc d \<and> (matches kc lbl d \<longrightarrow> vref_ok d)"
    and two: "2 \<le> length (filter (matches kc lbl) (SecItemCopyMatching_records kc))"
  shows "FindIdentity kc lbl =
           (Returns (Some (matching_refs kc lbl), None),
            EvSecItemCopyMatching # map EvCFRetain (matching_refs kc lbl) @
            [EvCFRelease (SecItemCopyMatching_result kc), EvCFRelease (query_dict_ref kc)]) \<and>
         length (matching_refs kc lbl) =
           length (filter (matches kc lbl) (SecItemCopyMatching_records kc)) \<and>
         released (snd (FindIdentity kc lbl)) =
           [SecItemCopyMatching_result kc, query_dict_ref kc] \<and>
         fst (scan_identities kc [lbl] refs tr) = Returns (Inl MultipleMatchingIdentitiesFound)"
proof -
  from ok have ok': "\<forall>d \<in> set (tl (SecItemCopyMatching_records kc)).
               readable kc d \<and> (matches kc lbl d \<longrightarrow> vref_ok d)"
    using ne by (auto dest: list.set_sel(2))
  from ne h0 have hs: "matching_refs kc lbl =
      map vref_of (filter (matches kc lbl) (rev (tl (SecItemCopyMatching_records kc))))"
    by (simp add: matching_refs_def filter_rev_tl)
  have fi: "FindIdentity kc lbl =
           (Returns (Some (matching_refs kc lbl), None),
            EvSecItemCopyMatching # map EvCFRetain (matching_refs kc lbl) @
            [EvCFRelease (SecItemCopyMatching_result kc), EvCFRelease (query_dict_ref kc)])"
    unfolding hs using st ne ok' by (rule FindIdentity_scan)
  have "length (filter (matches kc lbl) (rev (SecItemCopyMatching_records kc))) =
        length (filter (matches kc lbl) (SecItemCopyMatching_records kc))"
    by (simp flip: rev_filter)
  then have len: "length (matching_refs kc lbl) =
        length (filter (matches kc lbl) (SecItemCopyMatching_records kc))"
    by (simp add: matching_refs_def)
  have rel: "released (snd (FindIdentity kc lbl)) =
           [SecItemCopyMatching_result kc, query_dict_ref kc]"
    by (simp add: fi released_append released_map_retain)
  from len two have "1 < length (matching_refs kc lbl)" by simp
  then have "fst (scan_identities kc [lbl] refs tr) =
           Returns (Inl MultipleMatchingIdentitiesFound)"
    by (auto simp: fi)
  with fi len rel show ?thesis by simp
qed

theorem FindIdentity_returns_all_matches_witness:
  "FindIdentity (demo_keychain [rec_other 22, rec_test 20, rec_test 21]) ''Test Cert'' =
     (Returns (Some [21, 20], None),
      [EvSecItemCopyMatching, EvCFRetain 21, EvCFRetain 20, EvCFRelease 2, EvCFRelease 1]) \<and>
   fst (scan_identities (demo_keychain [rec_other 22, rec_test 20, rec_test 21])
          [''Test Cert''] [] []) = Returns (Inl MultipleMatchingIdentitiesFound)"
proof -
  let ?kc = "demo_keychain [rec_other 22, rec_test 20, rec_test 21]"
  have st: "SecItemCopyMatching_status ?kc = errSecSuccess"
    by (simp add: demo_defs)
  have ne: "SecItemCopyMatching_records ?kc \<noteq> []"
    by (simp add: demo_defs)
  have h0: "\<not> matches ?kc ''Test Cert'' (hd (SecItemCopyMatching_records ?kc))"
    by (simp add: demo_defs matches_def readers_defs)
  have ok: "\<forall>d \<in> set (SecItemCopyMatching_records ?kc).
              readable ?kc d \<and> (matches ?kc ''Test Cert'' d \<longrightarrow> vref_ok d)"
    by (simp add: demo_defs matches_def readable_def vref_ok_def vref_of_def readers_defs)
  have two: "2 \<le> length (filter (matches ?kc ''Test Cert'') (SecItemCopyMatching_records ?kc))"
    by (simp add: demo_defs matches_def readers_defs)
  have mr: "matching_refs ?kc ''Test Cert'' = [21, 20]"
    by (simp add: matching_refs_def demo_defs matches_def vref_of_def readers_defs)
  have hd: "SecItemCopyMatching_result ?kc = 2" "query_dict_ref ?kc = 1"
    by (simp_all add: demo_defs)
  from FindIdentity_returns_all_matches [OF st ne h0 ok two, of "[]" "[]"]
  show ?thesis by (simp add: mr hd)
qed

text \<open>
  C5. A successful query with no record of the requested label should end in the
  not-found error. On the non-empty result set below, none of whose records carries the
  label, \<open>FindIdentity\<close> returns an empty slice and a nil error instead.
\<close>

theorem FindIdentity_not_found_counterexample:
  "filter (matches (demo_keychain [rec_other 21, rec_other 22]) ''Test Cert'')
          (SecItemCopyMatching_records (demo_keychain [rec_other 21, rec_other 22])) = [] \<and>
   FindIdentity (demo_keychain [rec_other 21, rec_other 22]) ''Test Cert'' =
     (Returns (Some [], None), [EvSecItemCopyMatching, EvCFRelease 2, EvCFRelease 1])"
  by (simp add: demo_defs FindIdentity_def readers_defs matches_def)

text \<open>
  C5, as the code has it. When the query succeeds and every record has a readable label
  different from the requested one, \<open>FindIdentity\<close> retains nothing; it returns the
  not-found error when the result set is empty, and an empty slice with a nil error when
  it is not. In the second case it is the caller that reports the missing identity: the
  loop of \<open>scan\<close> stops with a fatal error in both cases.
\<close>

theorem FindIdentity_no_match:
  assumes st: "SecItemCopyMatching_status kc = errSecSuccess"
    and no: "\<forall>d \<in> set (SecItemCopyMatching_records kc). readable kc d \<and> \<not> matches kc lbl d"
  shows "FindIdentity kc lbl =
           (if SecItemCopyMatching_records kc = [] then Returns (None, Some NoIdentityFound)
            else Returns (Some [], None),
            [EvSecItemCopyMatching,
             EvCFRelease (SecItemCopyMatching_result kc), EvCFRelease (query_dict_ref kc)]) \<and>
         retained (snd (FindIdentity kc lbl)) = [] \<and>
         fst (scan_identities kc [lbl] refs tr) =
           Returns (Inl (if SecItemCopyMatching_records kc = []
                         then FailedToExportIdentity NoIdentityFound
                         else NoIdentityFoundInKeychain))"
proof -
  have fi: "FindIdentity kc lbl =
           (if SecItemCopyMatching_records kc = [] then Returns (None, Some NoIdentityFound)
            else Returns (Some [], None),
            [EvSecItemCopyMatching,
             EvCFRelease (SecItemCopyMatching_result kc), EvCFRelease (query_dict_ref kc)])"
  proof (cases "SecItemCopyMatching_records kc = []")
    case True
    then show ?thesis by (simp add: FindIdentity_def st)
  next
    case False
    from no False have ok: "\<forall>d \<in> set (tl (SecItemCopyMatching_records kc)).
               readable kc d \<and> (matches kc lbl d \<longrightarrow> vref_ok d)"
      by (auto dest: list.set_sel(2))
    from no False have "filter (matches kc lbl) (rev (tl (SecItemCopyMatching_records kc))) = []"
      by (auto simp: filter_empty_conv dest: list.set_sel(2))
    with FindIdentity_scan [OF st False ok] False show ?thesis by simp
  qed
  then have "retained (snd (FindIdentity kc lbl)) = []" by simp
  moreover from fi have "fst (scan_identities kc [lbl] refs tr) =
           Returns (Inl (if SecItemCopyMatching_records kc = []
                         then FailedToExportIdentity NoIdentityFound
                         else NoIdentityFoundInKeychain))"
    by simp
  ultimately show ?thesis using fi by simp
qed

theorem FindIdentity_no_match_witness:
  "FindIdentity (demo_keychain [rec_other 21, rec_other 22]) ''Test Cert'' =
     (Returns (Some [], None), [EvSecItemCopyMatching, EvCFRelease 2, EvCFRelease 1]) \<and>
   fst (scan_identities (demo_keychain [rec_other 21, rec_other 22]) [''Test Cert''] [] []) =
     Returns (Inl NoIdentityFoundInKeychain) \<and>
   FindIdentity (demo_keychain []) ''Test Cert'' =
     (Returns (None, Some NoIdentityFound), [EvSecItemCopyMatching, EvCFRelease 2, EvCFRelease 1])"
proof -
  let ?kc = "demo_keychain [rec_other 21, rec_other 22]"
  have st: "SecItemCopyMatching_status ?kc = errSecSuccess"
    by (simp add: demo_defs)
  have no: "\<forall>d \<in> set (SecItemCopyMatching_records ?kc).
              readable ?kc d \<and> \<not> matches ?kc ''Test Cert'' d"
    by (simp add: demo_defs matches_def readable_def readers_defs)
  have st0: "SecItemCopyMatching_status (demo_keychain []) = errSecSuccess"
    by (simp add: demo_defs)
  have no0: "\<forall>d \<in> set (SecItemCopyMatching_records (demo_keychain [])).
              readable (demo_keychain []) d \<and> \<not> matches (demo_keychain []) ''Test Cert'' d"
    by (simp add: demo_defs)
  from FindIdentity_no_match [OF st no, of "[]" "[]"]
       FindIdentity_no_match [OF st0 no0, of "[]" "[]"]
  show ?thesis by (simp add: demo_defs)
qed

text \<open>
  C6. A successful export should write as many bytes as the buffer reports. The length is
  narrowed by \<open>(C.int)(C.CFDataGetLength(exportedData))\<close> on its way to \<open>C.GoBytes\<close>, with no
  check: a buffer of \<open>2 ^ 32 + 5\<close> bytes reports 4294967301, the conversion leaves 5, and
  the run succeeds after writing 5 bytes; a buffer of \<open>2 ^ 31\<close> bytes gives a negative
  length, on which \<open>C.GoBytes\<close> panics.
\<close>

theorem ExportFromKeychain_truncates_length:
  "sint (CFDataGetLength (SecItemExport_data (big_keychain (2 ^ 32 + 5)) [20])) = 4294967301 \<and>
   ExportFromKeychain (big_keychain (2 ^ 32 + 5)) [20] ''Identities.p12'' =
     (Returns None,
      [EvCFArrayCreate [20], EvSecItemExport [20], EvGoBytes 30 5,
       EvWriteBytesToFile ''Identities.p12'' (replicate 5 7), EvCFRelease 30]) \<and>
   ExportFromKeychain (big_keychain (2 ^ 31)) [20] ''Identities.p12'' =
     (Panics GoBytesLengthOutOfRange,
      [EvCFArrayCreate [20], EvSecItemExport [20], EvCFRelease 30])"
  by (simp add: ExportFromKeychain_def big_keychain_def demo_keychain_def errSecSuccess_def
        GoBytes_def CFDataGetLength_def)

text \<open>
  C7. When the export primitive is reached (the input is not empty) and answers a status
  other than success, \<open>ExportFromKeychain\<close> returns the error that carries this status; no
  handle is released and the file writer is not called.
\<close>

theorem ExportFromKeychain_store_failure:
  assumes "itemRefsToExport \<noteq> []"
    and "SecItemExport_status kc itemRefsToExport \<noteq> errSecSuccess"
  shows "ExportFromKeychain kc itemRefsToExport outputFilePath =
           (Returns (Some (SecItemExportFailed (SecItemExport_status kc itemRefsToExport))),
            [EvCFArrayCreate itemRefsToExport, EvSecItemExport itemRefsToExport]) \<and>
         (\<forall>h. EvCFRelease h \<notin> set (snd (ExportFromKeychain kc itemRefsToExport outputFilePath))) \<and>
         (\<forall>p bs. EvWriteBytesToFile p bs \<notin>
                    set (snd (ExportFromKeychain kc itemRefsToExport outputFilePath)))"
  using assms by (simp add: ExportFromKeychain_def Let_def)

theorem ExportFromKeychain_store_failure_witness:
  "ExportFromKeychain (failing_keychain (- 25293)) [20] ''Identities.p12'' =
     (Returns (Some (SecItemExportFailed (- 25293))),
      [EvCFArrayCreate [20], EvSecItemExport [20]])"
proof -
  have ne: "[20::nat] \<noteq> []" by simp
  have st: "SecItemExport_status (failing_keychain (- 25293)) [20] \<noteq> errSecSuccess"
    by (simp add: failing_keychain_def demo_keychain_def errSecSuccess_def)
  have v: "SecItemExport_status (failing_keychain (- 25293)) [20] = - 25293"
    by (simp add: failing_keychain_def demo_keychain_def)
  from ExportFromKeychain_store_failure [OF ne st, of "''Identities.p12''"]
  show ?thesis by (simp add: v)
qed

text \<open>
  C8. The string reader returns an error, and the empty string with it, when the value under
  the key is not a string, when the value is the null pointer, and when the conversion of
  the string gives the null pointer; whenever it returns a nil error, the value under the
  key is a non-null string and the result is its conversion.
\<close>

theorem getCFDictValueUTF8String_errors:
  "(dict key = Some v \<and> v \<noteq> NULL \<and> CFGetTypeID kc v \<noteq> CFStringGetTypeID kc \<longrightarrow>
      getCFDictValueUTF8String kc dict key = ('''', Some ValueIsNotAString)) \<and>
   (dict key = Some NULL \<longrightarrow>
      getCFDictValueUTF8String kc dict key = ('''', Some NilValueReturned)) \<and>
   (dict key = Some v \<and> v \<noteq> NULL \<and> CFGetTypeID kc v = CFStringGetTypeID kc \<and>
    CFStringGetCStringPtr kc v = None \<longrightarrow>
      getCFDictValueUTF8String kc dict key = ('''', Some FailedToConvert)) \<and>
   (snd (getCFDictValueUTF8String kc dict key) = None \<longrightarrow>
      (\<exists>w. dict key = Some w \<and> w \<noteq> NULL \<and> CFGetTypeID kc w = CFStringGetTypeID kc \<and>
           CFStringGetCStringPtr kc w = Some (fst (getCFDictValueUTF8String kc dict key))))"
  by (auto simp: readers_defs split: option.splits if_splits)

theorem getCFDictValueUTF8String_errors_witness:
  "getCFDictValueUTF8String (demo_keychain []) [''labl'' \<mapsto> 20] ''labl'' =
     ('''', Some ValueIsNotAString) \<and>
   getCFDictValueUTF8String (demo_keychain []) [''labl'' \<mapsto> NULL] ''labl'' =
     ('''', Some NilValueReturned) \<and>
   getCFDictValueUTF8String (demo_keychain []) [''labl'' \<mapsto> 12] ''labl'' =
     ('''', Some FailedToConvert) \<and>
   CFStringGetCStringPtr (demo_keychain []) 10 =
     Some (fst (getCFDictValueUTF8String (demo_keychain []) [''labl'' \<mapsto> 10] ''labl''))"
proof -
  let ?kc = "demo_keychain []"
  have a: "[''labl'' \<mapsto> 20] ''labl'' = Some (20::nat) \<and> (20::nat) \<noteq> NULL \<and>
           CFGetTypeID ?kc 20 \<noteq> CFStringGetTypeID ?kc"
    by (simp add: demo_keychain_def)
  have b: "[''labl'' \<mapsto> NULL] ''labl'' = Some NULL"
    by simp
  have c: "[''labl'' \<mapsto> 12] ''labl'' = Some (12::nat) \<and> (12::nat) \<noteq> NULL \<and>
           CFGetTypeID ?kc 12 = CFStringGetTypeID ?kc \<and> CFStringGetCStringPtr ?kc 12 = None"
    by (simp add: demo_keychain_def)
  have d: "snd (getCFDictValueUTF8String ?kc [''labl'' \<mapsto> 10] ''labl'') = None"
    by (simp add: demo_keychain_def readers_defs)
  from getCFDictValueUTF8String_errors [of "[''labl'' \<mapsto> 20]" "''labl''" 20 ?kc] a
  have 1: "getCFDictValueUTF8String ?kc [''labl'' \<mapsto> 20] ''labl'' = ('''', Some ValueIsNotAString)"
    by blast
  from getCFDictValueUTF8String_errors [of "[''labl'' \<mapsto> NULL]" "''labl''" 0 ?kc] b
  have 2: "getCFDictValueUTF8String ?kc [''labl'' \<mapsto> NULL] ''labl'' = ('''', Some NilValueReturned)"
    by blast
  from getCFDictValueUTF8String_errors [of "[''labl'' \<mapsto> 12]" "''labl''" 12 ?kc] c
  have 3: "getCFDictValueUTF8String ?kc [''labl'' \<mapsto> 12] ''labl'' = ('''', Some FailedToConvert)"
    by blast
  from getCFDictValueUTF8String_errors [of "[''labl'' \<mapsto> 10]" "''labl''" 10 ?kc] d
  have 4: "CFStringGetCStringPtr ?kc 10 =
             Some (fst (getCFDictValueUTF8String ?kc [''labl'' \<mapsto> 10] ''labl''))"
    by auto
  from 1 2 3 4 show ?thesis by blast
qed

text \<open>
  C9. When the identity query answers a status other than success, \<open>FindIdentity\<close> returns
  an error whose text is the fixed message followed by the decimal digits of that status,
  and so does \<open>ExportFromKeychain\<close> when the export primitive is reached and answers such a
  status. The digits read back as the status, and two errors of the same call with the
  same text carry the same status.
\<close>

theorem store_failure_carries_status:
  "(SecItemCopyMatching_status kc \<noteq> errSecSuccess \<longrightarrow>
      (\<exists>e. fst (FindIdentity kc identityLabel) = Returns (None, Some e) \<and>
           error_string e = ''Failed to call SecItemCopyMatch - OSStatus: '' @
                            fmt_d (sint (SecItemCopyMatching_status kc)) \<and>
           read_d (drop (length ''Failed to call SecItemCopyMatch - OSStatus: '') (error_string e)) =
             sint (SecItemCopyMatching_status kc))) \<and>
   (itemRefsToExport \<noteq> [] \<and> SecItemExport_status kc itemRefsToExport \<noteq> errSecSuccess \<longrightarrow>
      (\<exists>e. fst (ExportFromKeychain kc itemRefsToExport outputFilePath) = Returns (Some e) \<and>
           error_string e = ''SecItemExport: error (OSStatus): '' @
                            fmt_d (sint (SecItemExport_status kc itemRefsToExport)) \<and>
           read_d (drop (length ''SecItemExport: error (OSStatus): '') (error_string e)) =
             sint (SecItemExport_status kc itemRefsToExport))) \<and>
   (error_string (CopyMatchFailed a) = error_string (CopyMatchFailed b) \<longrightarrow> a = b) \<and>
   (error_string (SecItemExportFailed a) = error_string (SecItemExportFailed b) \<longrightarrow> a = b)"
proof -
  have inj: "fmt_d (sint a) = fmt_d (sint b) \<Longrightarrow> a = b" for a b :: OSStatus
    using fmt_d_inj [of "sint a" "sint b"] by (simp add: signed_word_eqI)
  have q: "SecItemCopyMatching_status kc \<noteq> errSecSuccess \<Longrightarrow>
      fst (FindIdentity kc identityLabel) =
        Returns (None, Some (CopyMatchFailed (SecItemCopyMatching_status kc)))"
    by (simp add: FindIdentity_def)
  have x: "itemRefsToExport \<noteq> [] \<Longrightarrow>
      SecItemExport_status kc itemRefsToExport \<noteq> errSecSuccess \<Longrightarrow>
      fst (ExportFromKeychain kc itemRefsToExport outputFilePath) =
        Returns (Some (SecItemExportFailed (SecItemExport_status kc itemRefsToExport)))"
    by (simp add: ExportFromKeychain_def Let_def)
  show ?thesis
    using q x inj by (auto simp: read_d_fmt_d)
qed

theorem store_failure_carries_status_witness:
  "fst (FindIdentity (failing_keychain (- 25300)) ''Test Cert'') =
     Returns (None, Some (CopyMatchFailed (- 25300))) \<and>
   error_string (CopyMatchFailed (- 25300)) =
     ''Failed to call SecItemCopyMatch - OSStatus: -25300'' \<and>
   read_d (drop (length ''Failed to call SecItemCopyMatch - OSStatus: '')
             (error_string (CopyMatchFailed (- 25300)))) = - 25300 \<and>
   fst (ExportFromKeychain (failing_keychain (- 25300)) [20] ''Identities.p12'') =
     Returns (Some (SecItemExportFailed (- 25300))) \<and>
   error_string (SecItemExportFailed (- 25300)) = ''SecItemExport: error (OSStatus): -25300'' \<and>
   read_d (drop (length ''SecItemExport: error (OSStatus): '')
             (error_string (SecItemExportFailed (- 25300)))) = - 25300"
proof -
  let ?kc = "failing_keychain (- 25300)"
  have q: "SecItemCopyMatching_status ?kc \<noteq> errSecSuccess"
    by (simp add: failing_keychain_def demo_keychain_def errSecSuccess_def)
  have x: "[20::nat] \<noteq> [] \<and> SecItemExport_status ?kc [20] \<noteq> errSecSuccess"
    by (simp add: failing_keychain_def demo_keychain_def errSecSuccess_def)
  have v: "SecItemCopyMatching_status ?kc = - 25300" "SecItemExport_status ?kc [20] = - 25300"
    by (simp_all add: failing_keychain_def demo_keychain_def)
  have s: "sint (- 25300 :: OSStatus) = - 25300"
    by simp
  have f: "fmt_d (- 25300) = ''-25300''"
    by (simp add: fmt_d_def digits.simps)
  have fi: "fst (FindIdentity ?kc ''Test Cert'') = Returns (None, Some (CopyMatchFailed (- 25300)))"
    by (simp add: FindIdentity_def v errSecSuccess_def)
  have ex: "fst (ExportFromKeychain ?kc [20] ''Identities.p12'') =
              Returns (Some (SecItemExportFailed (- 25300)))"
    by (simp add: ExportFromKeychain_def v errSecSuccess_def)
  note inst = store_failure_carries_status
               [of ?kc "''Test Cert''" "[20]" "''Identities.p12''" 0 0]
  from inst q obtain e where
    e: "fst (FindIdentity ?kc ''Test Cert'') = Returns (None, Some e)"
    and et: "error_string e = ''Failed to call SecItemCopyMatch - OSStatus: '' @
                              fmt_d (sint (SecItemCopyMatching_status ?kc))"
    and er: "read_d (drop (length ''Failed to call SecItemCopyMatch - OSStatus: '')
                       (error_string e)) = sint (SecItemCopyMatching_status ?kc)"
    by blast
  from inst x obtain e' where
    e': "fst (ExportFromKeychain ?kc [20] ''Identities.p12'') = Returns (Some e')"
    and et': "error_string e' = ''SecItemExport: error (OSStatus): '' @
                               fmt_d (sint (SecItemExport_status ?kc [20]))"
    and er': "read_d (drop (length ''SecItemExport: error (OSStatus): '')
                        (error_string e')) = sint (SecItemExport_status ?kc [20])"
    by blast
  from e fi have 1: "e = CopyMatchFailed (- 25300)" by simp
  from e' ex have 2: "e' = SecItemExportFailed (- 25300)" by simp
  from et have 3: "error_string (CopyMatchFailed (- 25300)) =
                     ''Failed to call SecItemCopyMatch - OSStatus: -25300''"
    unfolding 1 v s f by simp
  from et' have 4: "error_string (SecItemExportFailed (- 25300)) =
                      ''SecItemExport: error (OSStatus): -25300''"
    unfolding 2 v s f by simp
  from er have 5: "read_d (drop (length ''Failed to call SecItemCopyMatch - OSStatus: '')
             (error_string (CopyMatchFailed (- 25300)))) = - 25300"
    unfolding 1 v s .
  from er' have 6: "read_d (drop (length ''SecItemExport: error (OSStatus): '')
             (error_string (SecItemExportFailed (- 25300)))) = - 25300"
    unfolding 2 v s .
  from fi 3 5 ex 4 6 show ?thesis by blast
qed

end
